theory Spec2Isabelle
  imports Complex_Main "HOL-Library.Sublist"
begin

section \<open>Python values and exceptions\<close>

text \<open>
  The exceptions the two geocoders can raise. \<open>GeocoderQueryError\<close> is the only one the
  source raises itself; the others are raised by the Python operations it uses (subscripting,
  attribute lookup, \<open>len\<close>, \<open>float\<close>). \<open>CollaboratorError\<close> stands for whatever the
  collaborators outside the two files raise (transport, URL encoding, string formatting,
  point coercion).
\<close>

datatype error =
    GeocoderQueryError string
  | KeyError string
  | TypeError
  | AttributeError
  | ValueError
  | OverflowError
  | CollaboratorError string

text \<open>
  A decoded JSON document as Python holds it. The type \<open>'f\<close> is Python's \<open>float\<close>.
  An object is the list of its items; \<open>map_of\<close> is the dictionary lookup.
\<close>

datatype 'f json =
    JNull
  | JBool bool
  | JInt int
  | JFloat 'f
  | JStr string
  | JArr "'f json list"
  | JObj "(string \<times> 'f json) list"

text \<open>
  Python's built-in \<open>float\<close> enters only through four operations, which are parameters
  of the model: truth value (\<open>bool(x)\<close>), \<open>float(n)\<close> for an integer (\<open>None\<close> is
  OverflowError), \<open>float(s)\<close> for a string (\<open>None\<close> is ValueError), and the integer a
  float is exactly equal to, if any (\<open>x == n\<close> compares exactly).

  The fifth parameter is the coordinate pair that \<open>geopy.location.Location\<close>, which is not
  among the source files, makes of the pair it is constructed with: two floats, or no pair;
  \<open>Inl\<close> names the exception when the constructor raises (see \<open>Location_init\<close> below).
\<close>

record 'f pyfloat =
  float_nonzero :: "'f \<Rightarrow> bool"
  float_of_int :: "int \<Rightarrow> 'f option"
  float_of_str :: "string \<Rightarrow> 'f option"
  float_as_int :: "'f \<Rightarrow> int option"
  point_of :: "'f json \<times> 'f json \<Rightarrow> string + ('f \<times> 'f) option"

text \<open>Truth value of a Python object, as \<open>if x\<close>, \<open>x and y\<close> and \<open>x or y\<close> test it.\<close>

fun py_truthy :: "'f pyfloat \<Rightarrow> 'f json \<Rightarrow> bool" where
  "py_truthy fl JNull = False"
| "py_truthy fl (JBool b) = b"
| "py_truthy fl (JInt n) = (n \<noteq> 0)"
| "py_truthy fl (JFloat x) = float_nonzero fl x"
| "py_truthy fl (JStr s) = (s \<noteq> [])"
| "py_truthy fl (JArr xs) = (xs \<noteq> [])"
| "py_truthy fl (JObj kvs) = (kvs \<noteq> [])"

text \<open>\<open>x or None\<close>.\<close>

definition py_or_None :: "'f pyfloat \<Rightarrow> 'f json \<Rightarrow> 'f json" where
  "py_or_None fl v = (if py_truthy fl v then v else JNull)"

text \<open>\<open>d.get(k, default)\<close>: only a dictionary has the method.\<close>

fun py_get :: "'f json \<Rightarrow> string \<Rightarrow> 'f json \<Rightarrow> error + 'f json" where
  "py_get (JObj kvs) k d = Inr (case map_of kvs k of Some v \<Rightarrow> v | None \<Rightarrow> d)"
| "py_get _ k d = Inl AttributeError"

text \<open>\<open>d[k]\<close> with a string key: KeyError on a dictionary without the key, TypeError on
  every other kind of object.\<close>

fun py_getitem :: "'f json \<Rightarrow> string \<Rightarrow> error + 'f json" where
  "py_getitem (JObj kvs) k = (case map_of kvs k of Some v \<Rightarrow> Inr v | None \<Rightarrow> Inl (KeyError k))"
| "py_getitem _ k = Inl TypeError"

text \<open>\<open>len(x)\<close>: defined on dictionaries, lists and strings.\<close>

fun py_len :: "'f json \<Rightarrow> error + nat" where
  "py_len (JObj kvs) = Inr (length (remdups (map fst kvs)))"
| "py_len (JArr xs) = Inr (length xs)"
| "py_len (JStr s) = Inr (length s)"
| "py_len _ = Inl TypeError"

text \<open>\<open>float(x)\<close>.\<close>

fun py_float :: "'f pyfloat \<Rightarrow> 'f json \<Rightarrow> error + 'f json" where
  "py_float fl (JFloat x) = Inr (JFloat x)"
| "py_float fl (JInt n) =
     (case float_of_int fl n of Some x \<Rightarrow> Inr (JFloat x) | None \<Rightarrow> Inl OverflowError)"
| "py_float fl (JBool b) =
     (case float_of_int fl (if b then 1 else 0) of Some x \<Rightarrow> Inr (JFloat x)
      | None \<Rightarrow> Inl OverflowError)"
| "py_float fl (JStr s) =
     (case float_of_str fl s of Some x \<Rightarrow> Inr (JFloat x) | None \<Rightarrow> Inl ValueError)"
| "py_float fl _ = Inl TypeError"

text \<open>The integer a Python object compares equal to, if any: \<open>True == 1\<close>, \<open>1.0 == 1\<close>.\<close>

fun py_as_int :: "'f pyfloat \<Rightarrow> 'f json \<Rightarrow> int option" where
  "py_as_int fl (JInt n) = Some n"
| "py_as_int fl (JBool b) = Some (if b then 1 else 0)"
| "py_as_int fl (JFloat x) = float_as_int fl x"
| "py_as_int fl _ = None"

text \<open>\<open>x == k\<close> for an integer literal \<open>k\<close>, and \<open>x == 'lit'\<close> for a string literal.\<close>

definition py_eq_int :: "'f pyfloat \<Rightarrow> 'f json \<Rightarrow> int \<Rightarrow> bool" where
  "py_eq_int fl v k = (py_as_int fl v = Some k)"

definition py_eq_str :: "'f json \<Rightarrow> string \<Rightarrow> bool" where
  "py_eq_str v s = (v = JStr s)"

section \<open>Results, configuration and the collaborators\<close>

text \<open>
  Modelled from the spec: \<open>geopy.location.Location\<close> is not among the source files. The
  spec describes a result as the triple of display label, coordinate pair and raw provider
  payload, and the pair as (latitude, longitude) in floating point, or absent. The record
  is the result a caller holds: \<open>loc_point\<close> is the pair of the result, two floats or twice
  \<open>None\<close>, not the pair the constructor is called with.
\<close>

record 'f Location =
  loc_address :: "'f json"
  loc_point :: "'f json \<times> 'f json"
  loc_raw :: "'f json"

text \<open>
  Modelled from the spec: the constructor call \<open>Location(address, (latitude, longitude),
  raw)\<close>. Label and payload are kept. The pair of the result is what \<open>point_of\<close> makes of
  the argument pair; the spec says no more of it than that it is two floats or absent, so
  the values are left to the parameter. An exception of the constructor is one of a
  collaborator.
\<close>

definition Location_init ::
  "'f pyfloat \<Rightarrow> 'f json \<Rightarrow> 'f json \<times> 'f json \<Rightarrow> 'f json \<Rightarrow> error + 'f Location" where
  "Location_init fl address point raw =
     (case point_of fl point of
        Inl name \<Rightarrow> Inl (CollaboratorError name)
      | Inr None \<Rightarrow>
          Inr \<lparr>loc_address = address, loc_point = (JNull, JNull), loc_raw = raw\<rparr>
      | Inr (Some (la, lo)) \<Rightarrow>
          Inr \<lparr>loc_address = address, loc_point = (JFloat la, JFloat lo), loc_raw = raw\<rparr>)"

text \<open>
  Modelled from the spec: the base class \<open>geopy.geocoders.base.Geocoder\<close> is not among the
  source files. Its constructor keeps the output template, the scheme, the default timeout
  and the proxy map.
\<close>

record Geocoder =
  format_string :: string
  scheme :: string
  timeout :: nat
  proxies :: "(string \<times> string) list option"

record BaiduV1 = Geocoder +
  key :: string
  api :: string

record BaiduV2 = Geocoder +
  ak :: string
  api2 :: string

definition BaiduV1_init ::
  "string \<Rightarrow> string \<Rightarrow> string \<Rightarrow> nat \<Rightarrow> (string \<times> string) list option \<Rightarrow> BaiduV1" where
  "BaiduV1_init k fs sch tmo prx =
     \<lparr>format_string = fs, scheme = sch, timeout = tmo, proxies = prx,
      key = k, api = sch @ ''://api.map.baidu.com/geocoder''\<rparr>"

definition BaiduV2_init ::
  "string \<Rightarrow> string \<Rightarrow> string \<Rightarrow> nat \<Rightarrow> (string \<times> string) list option \<Rightarrow> BaiduV2" where
  "BaiduV2_init k fs sch tmo prx =
     \<lparr>format_string = fs, scheme = sch, timeout = tmo, proxies = prx,
      ak = k, api2 = sch @ ''://api.map.baidu.com/geocoder/v2/''\<rparr>"

text \<open>
  A request's parameters: the dictionary \<open>params\<close>, kept as the list of its items in the
  order the source inserts them. \<open>dict_set\<close> is \<open>params[k] = v\<close>.
\<close>

type_synonym params = "(string \<times> string) list"

fun dict_set :: "params \<Rightarrow> string \<Rightarrow> string \<Rightarrow> params" where
  "dict_set [] k v = [(k, v)]"
| "dict_set ((k', v') # kvs) k v =
     (if k' = k then (k, v) # kvs else (k', v') # dict_set kvs k v)"

text \<open>
  The collaborators outside the two files, as parameters: the operator \<open>%\<close> applied to the
  output template and the query, \<open>urlencode\<close>, the base class's
  \<open>_coerce_point_to_string\<close>, the transport behind \<open>_call_geocoder\<close> (it reads and changes a
  network state \<open>'n\<close>), and Python's float. Each may raise.
\<close>

record ('f, 'q, 'n) collab =
  percent :: "string \<Rightarrow> string \<Rightarrow> error + string"
  urlencode :: "params \<Rightarrow> error + string"
  coerce_point_to_string :: "'q \<Rightarrow> error + string"
  transport :: "string \<Rightarrow> nat option \<Rightarrow> 'n \<Rightarrow> (error + 'f json) \<times> 'n"
  floats :: "'f pyfloat"

text \<open>
  What a call leaves behind: the records handed to the logger, the requests handed to the
  transport (URL and per-call timeout), and the network state.
\<close>

datatype 'f log_entry =
    LogDebug string
  | LogDebugObj "'f json"
  | LogWarnObj "'f json"

record ('f, 'n) world =
  logged :: "'f log_entry list"
  sent :: "(string \<times> nat option) list"
  net :: 'n

definition logger :: "'f log_entry \<Rightarrow> ('f, 'n) world \<Rightarrow> ('f, 'n) world" where
  "logger e w = w\<lparr>logged := logged w @ [e]\<rparr>"

text \<open>
  Modelled from the spec: \<open>_call_geocoder\<close> is the base class's transport capability
  \<open>send(url, timeout) -> parsed JSON\<close>. The model records the request and lets the
  transport answer.
\<close>

definition call_geocoder ::
  "('f, 'q, 'n) collab \<Rightarrow> string \<Rightarrow> nat option \<Rightarrow> ('f, 'n) world \<Rightarrow>
   (error + 'f json) \<times> ('f, 'n) world" where
  "call_geocoder env url tmo w =
     (case transport env url tmo (net w) of
        (r, n') \<Rightarrow> (r, w\<lparr>sent := sent w @ [(url, tmo)], net := n'\<rparr>))"

section \<open>BaiduV1\<close>

text \<open>\<open>BaiduV1._check_status\<close> (baiduv1.py, lines 144-159).\<close>

definition BaiduV1_check_status :: "'f pyfloat \<Rightarrow> 'f json \<Rightarrow> error + unit" where
  "BaiduV1_check_status fl status =
     (if py_eq_str status ''OK'' then Inr ()
      else if py_eq_int fl status 1 then Inl (GeocoderQueryError ''Server internal error.'')
      else if py_eq_str status ''INVILID_KEY'' then Inl (GeocoderQueryError ''Invalid key.'')
      else if py_eq_str status ''INVALID_PARAMETERS''
        then Inl (GeocoderQueryError ''INVALID PARAMETERS.'')
      else Inl (GeocoderQueryError ''Unknown error.''))"

text \<open>
  The conversion both parsers do before they construct the result (lines 136-138 of either
  file): both axes are converted when both are truthy, latitude first; otherwise they stay
  as they are. The pair is the argument of \<open>Location\<close> at line 140.
\<close>

definition convert_pair ::
  "'f pyfloat \<Rightarrow> 'f json \<Rightarrow> 'f json \<Rightarrow> error + ('f json \<times> 'f json)" where
  "convert_pair fl latitude longitude =
     (if py_truthy fl latitude \<and> py_truthy fl longitude then
        (case py_float fl latitude of
           Inl e \<Rightarrow> Inl e
         | Inr la \<Rightarrow>
             (case py_float fl longitude of
                Inl e \<Rightarrow> Inl e
              | Inr lo \<Rightarrow> Inr (la, lo)))
      else Inr (latitude, longitude))"

text \<open>The nested \<open>parse_result\<close> of \<open>BaiduV1._parse_json\<close> (lines 127-140).\<close>

definition BaiduV1_parse_result :: "'f pyfloat \<Rightarrow> 'f json \<Rightarrow> error + 'f Location" where
  "BaiduV1_parse_result fl r =
     (case py_getitem r ''result'' of
        Inl e \<Rightarrow> Inl e
      | Inr result \<Rightarrow>
     (case py_get result ''formatted_address'' JNull of
        Inl e \<Rightarrow> Inl e
      | Inr address \<Rightarrow>
     (case py_getitem result ''location'' of
        Inl e \<Rightarrow> Inl e
      | Inr loc1 \<Rightarrow>
     (case py_getitem loc1 ''lat'' of
        Inl e \<Rightarrow> Inl e
      | Inr lat \<Rightarrow>
     (case py_getitem result ''location'' of
        Inl e \<Rightarrow> Inl e
      | Inr loc2 \<Rightarrow>
     (case py_getitem loc2 ''lng'' of
        Inl e \<Rightarrow> Inl e
      | Inr lng \<Rightarrow>
     (case convert_pair fl (py_or_None fl lat) (py_or_None fl lng) of
        Inl e \<Rightarrow> Inl e
      | Inr p \<Rightarrow> Location_init fl address p result)))))))"

text \<open>\<open>BaiduV1._parse_json\<close> (lines 117-142). The argument \<open>exactly_one\<close> is not read.\<close>

definition BaiduV1_parse_json ::
  "'f pyfloat \<Rightarrow> 'f json \<Rightarrow> bool \<Rightarrow> ('f, 'n) world \<Rightarrow>
   (error + 'f Location option) \<times> ('f, 'n) world" where
  "BaiduV1_parse_json fl response exactly_one w =
     (let w1 = logger (LogDebugObj response) w in
      case py_get response ''result'' (JArr []) of
        Inl e \<Rightarrow> (Inl e, w1)
      | Inr result \<Rightarrow>
     (case py_len result of
        Inl e \<Rightarrow> (Inl e, w1)
      | Inr n \<Rightarrow>
          if n = 0 then
            (case py_get response ''status'' JNull of
               Inl e \<Rightarrow> (Inl e, w1)
             | Inr status \<Rightarrow>
            (case BaiduV1_check_status fl status of
               Inl e \<Rightarrow> (Inl e, w1)
             | Inr _ \<Rightarrow> (Inr None, w1)))
          else
            (case BaiduV1_parse_result fl response of
               Inl e \<Rightarrow> (Inl e, w1)
             | Inr l \<Rightarrow> (Inr (Some l), w1))))"

text \<open>
  Request construction of \<open>BaiduV1.geocode\<close> (lines 75-84): the parameters, then the URL.
  \<open>city\<close> is \<open>None\<close> when the caller leaves it out.
\<close>

definition BaiduV1_geocode_params ::
  "('f, 'q, 'n) collab \<Rightarrow> BaiduV1 \<Rightarrow> string \<Rightarrow> string option \<Rightarrow> error + params" where
  "BaiduV1_geocode_params env self query city =
     (case percent env (format_string self) query of
        Inl e \<Rightarrow> Inl e
      | Inr address \<Rightarrow>
          (let params = [(''address'', address), (''output'', ''json''), (''key'', key self)]
           in case city of
                None \<Rightarrow> Inr params
              | Some c \<Rightarrow> if c \<noteq> [] then Inr (dict_set params ''city'' c) else Inr params))"

definition BaiduV1_geocode_url ::
  "('f, 'q, 'n) collab \<Rightarrow> BaiduV1 \<Rightarrow> string \<Rightarrow> string option \<Rightarrow> error + string" where
  "BaiduV1_geocode_url env self query city =
     (case BaiduV1_geocode_params env self query city of
        Inl e \<Rightarrow> Inl e
      | Inr params \<Rightarrow>
          (case urlencode env params of
             Inl e \<Rightarrow> Inl e
           | Inr qs \<Rightarrow> Inr (api self @ ''?'' @ qs)))"

text \<open>\<open>BaiduV1.geocode\<close> (lines 57-86).\<close>

definition BaiduV1_geocode ::
  "('f, 'q, 'n) collab \<Rightarrow> BaiduV1 \<Rightarrow> string \<Rightarrow> string option \<Rightarrow> bool \<Rightarrow> nat option \<Rightarrow>
   ('f, 'n) world \<Rightarrow> (error + 'f Location option) \<times> ('f, 'n) world" where
  "BaiduV1_geocode env self query city exactly_one tmo w =
     (case BaiduV1_geocode_url env self query city of
        Inl e \<Rightarrow> (Inl e, w)
      | Inr url \<Rightarrow>
          (let w1 = logger (LogDebug (''BaiduV1'' @ ''.geocode: '' @ url)) w in
           case call_geocoder env url tmo w1 of
             (Inl e, w2) \<Rightarrow> (Inl e, w2)
           | (Inr response, w2) \<Rightarrow> BaiduV1_parse_json (floats env) response exactly_one w2))"

text \<open>Request construction of \<open>BaiduV1.reverse\<close> (lines 106-112).\<close>

definition BaiduV1_reverse_params ::
  "('f, 'q, 'n) collab \<Rightarrow> BaiduV1 \<Rightarrow> 'q \<Rightarrow> error + params" where
  "BaiduV1_reverse_params env self query =
     (case coerce_point_to_string env query of
        Inl e \<Rightarrow> Inl e
      | Inr location \<Rightarrow>
          Inr [(''location'', location), (''output'', ''json''), (''key'', key self)])"

definition BaiduV1_reverse_url ::
  "('f, 'q, 'n) collab \<Rightarrow> BaiduV1 \<Rightarrow> 'q \<Rightarrow> error + string" where
  "BaiduV1_reverse_url env self query =
     (case BaiduV1_reverse_params env self query of
        Inl e \<Rightarrow> Inl e
      | Inr params \<Rightarrow>
          (case urlencode env params of
             Inl e \<Rightarrow> Inl e
           | Inr qs \<Rightarrow> Inr (api self @ ''?'' @ qs)))"

text \<open>\<open>BaiduV1.reverse\<close> (lines 88-115).\<close>

definition BaiduV1_reverse ::
  "('f, 'q, 'n) collab \<Rightarrow> BaiduV1 \<Rightarrow> 'q \<Rightarrow> bool \<Rightarrow> nat option \<Rightarrow>
   ('f, 'n) world \<Rightarrow> (error + 'f Location option) \<times> ('f, 'n) world" where
  "BaiduV1_reverse env self query exactly_one tmo w =
     (case BaiduV1_reverse_url env self query of
        Inl e \<Rightarrow> (Inl e, w)
      | Inr url \<Rightarrow>
          (let w1 = logger (LogDebug (''BaiduV1'' @ ''.reverse: '' @ url)) w in
           case call_geocoder env url tmo w1 of
             (Inl e, w2) \<Rightarrow> (Inl e, w2)
           | (Inr response, w2) \<Rightarrow> BaiduV1_parse_json (floats env) response exactly_one w2))"

section \<open>BaiduV2\<close>

text \<open>\<open>BaiduV2._check_status\<close> (baiduv2.py, lines 144-167).\<close>

definition BaiduV2_check_status :: "'f pyfloat \<Rightarrow> 'f json \<Rightarrow> error + unit" where
  "BaiduV2_check_status fl status =
     (if py_eq_int fl status 0 then Inr ()
      else if py_eq_int fl status 1 then Inl (GeocoderQueryError ''Server internal error.'')
      else if py_eq_int fl status 2 then Inl (GeocoderQueryError ''Invalid request.'')
      else if py_eq_int fl status 3
        then Inl (GeocoderQueryError ''Permission validation failed.'')
      else if py_eq_int fl status 4 then Inl (GeocoderQueryError ''Quota validation failed.'')
      else if py_eq_int fl status 5 then Inl (GeocoderQueryError ''Invalid ak.'')
      else if py_eq_int fl status 101 then Inl (GeocoderQueryError ''Service disabled.'')
      else if py_eq_int fl status 102
        then Inl (GeocoderQueryError
                    ''Failed to pass the whitelist or wrong security code.'')
      else Inl (GeocoderQueryError ''Unknown error.''))"

text \<open>
  The nested \<open>parse_result\<close> of \<open>BaiduV2._parse_json\<close> (lines 128-140). Its argument is
  subscripted with \<open>'level'\<close> and \<open>'location'\<close> directly.
\<close>

definition BaiduV2_parse_result :: "'f pyfloat \<Rightarrow> 'f json \<Rightarrow> error + 'f Location" where
  "BaiduV2_parse_result fl result =
     (case py_getitem result ''level'' of
        Inl e \<Rightarrow> Inl e
      | Inr level \<Rightarrow>
     (case py_getitem result ''location'' of
        Inl e \<Rightarrow> Inl e
      | Inr loc1 \<Rightarrow>
     (case py_getitem loc1 ''lat'' of
        Inl e \<Rightarrow> Inl e
      | Inr lat \<Rightarrow>
     (case py_getitem result ''location'' of
        Inl e \<Rightarrow> Inl e
      | Inr loc2 \<Rightarrow>
     (case py_getitem loc2 ''lng'' of
        Inl e \<Rightarrow> Inl e
      | Inr lng \<Rightarrow>
     (case convert_pair fl (py_or_None fl lat) (py_or_None fl lng) of
        Inl e \<Rightarrow> Inl e
      | Inr p \<Rightarrow> Location_init fl level p result))))))"

text \<open>
  \<open>BaiduV2._parse_json\<close> (lines 118-142). The last line hands the whole \<open>response\<close> to
  \<open>parse_result\<close> (line 142); \<open>exactly_one\<close> is not read.
\<close>

definition BaiduV2_parse_json ::
  "'f pyfloat \<Rightarrow> 'f json \<Rightarrow> bool \<Rightarrow> ('f, 'n) world \<Rightarrow>
   (error + 'f Location option) \<times> ('f, 'n) world" where
  "BaiduV2_parse_json fl response exactly_one w =
     (let w1 = logger (LogWarnObj response) w in
      case py_get response ''results'' (JArr []) of
        Inl e \<Rightarrow> (Inl e, w1)
      | Inr result \<Rightarrow>
     (case py_len result of
        Inl e \<Rightarrow> (Inl e, w1)
      | Inr n \<Rightarrow>
          if n = 0 then
            (case py_get response ''status'' JNull of
               Inl e \<Rightarrow> (Inl e, w1)
             | Inr status \<Rightarrow>
            (case BaiduV2_check_status fl status of
               Inl e \<Rightarrow> (Inl e, w1)
             | Inr _ \<Rightarrow> (Inr None, w1)))
          else
            (case BaiduV2_parse_result fl response of
               Inl e \<Rightarrow> (Inl e, w1)
             | Inr l \<Rightarrow> (Inr (Some l), w1))))"

text \<open>Request construction of \<open>BaiduV2.geocode\<close> (lines 75-84).\<close>

definition BaiduV2_geocode_params ::
  "('f, 'q, 'n) collab \<Rightarrow> BaiduV2 \<Rightarrow> string \<Rightarrow> string option \<Rightarrow> error + params" where
  "BaiduV2_geocode_params env self query city =
     (case percent env (format_string self) query of
        Inl e \<Rightarrow> Inl e
      | Inr address \<Rightarrow>
          (let params = [(''address'', address), (''output'', ''json''), (''ak'', ak self)]
           in case city of
                None \<Rightarrow> Inr params
              | Some c \<Rightarrow> if c \<noteq> [] then Inr (dict_set params ''city'' c) else Inr params))"

definition BaiduV2_geocode_url ::
  "('f, 'q, 'n) collab \<Rightarrow> BaiduV2 \<Rightarrow> string \<Rightarrow> string option \<Rightarrow> error + string" where
  "BaiduV2_geocode_url env self query city =
     (case BaiduV2_geocode_params env self query city of
        Inl e \<Rightarrow> Inl e
      | Inr params \<Rightarrow>
          (case urlencode env params of
             Inl e \<Rightarrow> Inl e
           | Inr qs \<Rightarrow> Inr (api2 self @ ''?'' @ qs)))"

text \<open>\<open>BaiduV2.geocode\<close> (lines 57-86).\<close>

definition BaiduV2_geocode ::
  "('f, 'q, 'n) collab \<Rightarrow> BaiduV2 \<Rightarrow> string \<Rightarrow> string option \<Rightarrow> bool \<Rightarrow> nat option \<Rightarrow>
   ('f, 'n) world \<Rightarrow> (error + 'f Location option) \<times> ('f, 'n) world" where
  "BaiduV2_geocode env self query city exactly_one tmo w =
     (case BaiduV2_geocode_url env self query city of
        Inl e \<Rightarrow> (Inl e, w)
      | Inr url \<Rightarrow>
          (let w1 = logger (LogDebug (''BaiduV2'' @ ''.geocode: '' @ url)) w in
           case call_geocoder env url tmo w1 of
             (Inl e, w2) \<Rightarrow> (Inl e, w2)
           | (Inr response, w2) \<Rightarrow> BaiduV2_parse_json (floats env) response exactly_one w2))"

text \<open>
  Request construction of \<open>BaiduV2.reverse\<close> (lines 106-113). \<open>coordtype\<close> is \<open>None\<close> when
  the caller leaves it out; the signature's default is then used (line 88).
\<close>

definition BaiduV2_reverse_params ::
  "('f, 'q, 'n) collab \<Rightarrow> BaiduV2 \<Rightarrow> 'q \<Rightarrow> string option \<Rightarrow> error + params" where
  "BaiduV2_reverse_params env self query coordtype =
     (let ct = (case coordtype of None \<Rightarrow> ''bd09ll'' | Some c \<Rightarrow> c) in
      case coerce_point_to_string env query of
        Inl e \<Rightarrow> Inl e
      | Inr location \<Rightarrow>
          Inr [(''location'', location), (''coordtype'', ct), (''output'', ''json''),
               (''ak'', ak self)])"

definition BaiduV2_reverse_url ::
  "('f, 'q, 'n) collab \<Rightarrow> BaiduV2 \<Rightarrow> 'q \<Rightarrow> string option \<Rightarrow> error + string" where
  "BaiduV2_reverse_url env self query coordtype =
     (case BaiduV2_reverse_params env self query coordtype of
        Inl e \<Rightarrow> Inl e
      | Inr params \<Rightarrow>
          (case urlencode env params of
             Inl e \<Rightarrow> Inl e
           | Inr qs \<Rightarrow> Inr (api2 self @ ''?'' @ qs)))"

text \<open>\<open>BaiduV2.reverse\<close> (lines 88-116).\<close>

definition BaiduV2_reverse ::
  "('f, 'q, 'n) collab \<Rightarrow> BaiduV2 \<Rightarrow> 'q \<Rightarrow> string option \<Rightarrow> bool \<Rightarrow> nat option \<Rightarrow>
   ('f, 'n) world \<Rightarrow> (error + 'f Location option) \<times> ('f, 'n) world" where
  "BaiduV2_reverse env self query coordtype exactly_one tmo w =
     (case BaiduV2_reverse_url env self query coordtype of
        Inl e \<Rightarrow> (Inl e, w)
      | Inr url \<Rightarrow>
          (let w1 = logger (LogDebug (''BaiduV2'' @ ''.reverse: '' @ url)) w in
           case call_geocoder env url tmo w1 of
             (Inl e, w2) \<Rightarrow> (Inl e, w2)
           | (Inr response, w2) \<Rightarrow> BaiduV2_parse_json (floats env) response exactly_one w2))"

section \<open>Vocabulary of the properties\<close>



text \<open>
  The items \<open>geocode\<close> adds for its \<open>city\<close> argument: one item when the argument is given
  and truthy, none otherwise.
\<close>

definition city_items :: "string option \<Rightarrow> params" where
  "city_items city =
     (case city of None \<Rightarrow> [] | Some c \<Rightarrow> if c = [] then [] else [(''city'', c)])"

section \<open>Concrete inputs\<close>

text \<open>
  The properties below hold for every choice of the collaborators. The concrete examples
  need one choice. Floats are taken as reals here, exact on the integers; no example
  converts a string, and this instance rejects them all.

  For the pair of a result the examples follow geopy's \<open>Point\<close>: each axis is
  \<open>float(x or 0.0)\<close>, so a missing axis is 0.0, and an axis out of range (beyond 90 for
  the latitude, 180 for the longitude) is wrapped into it.
\<close>

definition ideal_axis :: "real json \<Rightarrow> string + real" where
  "ideal_axis v =
     (case v of
        JNull \<Rightarrow> Inr 0
      | JBool b \<Rightarrow> Inr (if b then 1 else 0)
      | JInt n \<Rightarrow> Inr (of_int n)
      | JFloat x \<Rightarrow> Inr x
      | JStr s \<Rightarrow> if s = [] then Inr 0 else Inl ''ValueError''
      | JArr xs \<Rightarrow> if xs = [] then Inr 0 else Inl ''TypeError''
      | JObj kvs \<Rightarrow> if kvs = [] then Inr 0 else Inl ''TypeError'')"

definition wrap_axis :: "real \<Rightarrow> real \<Rightarrow> real" where
  "wrap_axis r x =
     (if \<bar>x\<bar> > r then (x + r) - 2 * r * of_int \<lfloor>(x + r) / (2 * r)\<rfloor> - r else x)"

definition ideal_point :: "real json \<times> real json \<Rightarrow> string + (real \<times> real) option" where
  "ideal_point p =
     (case ideal_axis (fst p) of
        Inl name \<Rightarrow> Inl name
      | Inr la \<Rightarrow>
          (case ideal_axis (snd p) of
             Inl name \<Rightarrow> Inl name
           | Inr lo \<Rightarrow> Inr (Some (wrap_axis 90 la, wrap_axis 180 lo))))"

definition ideal_float :: "real pyfloat" where
  "ideal_float =
     \<lparr>float_nonzero = (\<lambda>x. x \<noteq> 0),
      float_of_int = (\<lambda>n. Some (of_int n)),
      float_of_str = (\<lambda>s. None),
      float_as_int = (\<lambda>x. if of_int \<lfloor>x\<rfloor> = x then Some \<lfloor>x\<rfloor> else None),
      point_of = ideal_point\<rparr>"

definition world0 :: "(real, unit) world" where
  "world0 = \<lparr>logged = [], sent = [], net = ()\<rparr>"

text \<open>A query string without escaping: the items joined as \<open>k=v\<close> with \<open>&\<close>.\<close>

fun plain_query :: "params \<Rightarrow> string" where
  "plain_query [] = []"
| "plain_query [(k, v)] = k @ ''='' @ v"
| "plain_query ((k, v) # kv # kvs) = k @ ''='' @ v @ ''&'' @ plain_query (kv # kvs)"

text \<open>
  Modelled from the spec: the coercion \<open>toLatLngString(point-like) -> text\<close> renders a
  point as \<open>lat,lng\<close>. In the examples a point is the pair of its axes' decimal texts. The
  template is the default \<open>'%s'\<close> only, and the transport answers every request with an
  empty V1 result.
\<close>

definition example_env :: "(real, string \<times> string, unit) collab" where
  "example_env =
     \<lparr>percent = (\<lambda>fs q. if fs = ''%s'' then Inr q else Inl (CollaboratorError ''template'')),
      urlencode = (\<lambda>ps. Inr (plain_query ps)),
      coerce_point_to_string = (\<lambda>(la, lo). Inr (la @ '','' @ lo)),
      transport =
        (\<lambda>url tmo n. (Inr (JObj [(''status'', JStr ''OK''), (''result'', JArr [])]), n)),
      floats = ideal_float\<rparr>"

definition example_v1 :: BaiduV1 where
  "example_v1 = BaiduV1_init ''K1'' ''%s'' ''http'' 1 None"

definition example_v2 :: BaiduV2 where
  "example_v2 = BaiduV2_init ''K2'' ''%s'' ''http'' 1 None"

text \<open>Responses without results, with a given status.\<close>

definition v1_empty :: "real json \<Rightarrow> real json" where
  "v1_empty status = JObj [(''status'', status), (''result'', JArr [])]"

definition v2_empty :: "real json \<Rightarrow> real json" where
  "v2_empty status = JObj [(''status'', status), (''results'', JArr [])]"


text \<open>A V1 response whose result has no \<open>location\<close>.\<close>

definition v1_no_location :: "real json" where
  "v1_no_location =
     JObj [(''status'', JStr ''OK''),
           (''result'', JObj [(''formatted_address'', JStr ''Haidian'')])]"

text \<open>A V2 response of the documented shape \<open>{status, results: [{level, location}]}\<close>.\<close>

definition v2_documented :: "real json" where
  "v2_documented =
     JObj [(''status'', JInt 0),
           (''results'', JArr [JObj [(''level'', JStr ''road''),
                                     (''location'', JObj [(''lat'', JFloat 39.983424),
                                                          (''lng'', JFloat 116.322987)])]])]"


section \<open>Basic facts\<close>

lemma fst_BaiduV1_parse_json:
  "fst (BaiduV1_parse_json fl response exactly_one w) =
     (case py_get response ''result'' (JArr []) of
        Inl e \<Rightarrow> Inl e
      | Inr result \<Rightarrow>
     (case py_len result of
        Inl e \<Rightarrow> Inl e
      | Inr n \<Rightarrow>
          if n = 0 then
            (case py_get response ''status'' JNull of
               Inl e \<Rightarrow> Inl e
             | Inr status \<Rightarrow>
            (case BaiduV1_check_status fl status of
               Inl e \<Rightarrow> Inl e
             | Inr _ \<Rightarrow> Inr None))
          else
            (case BaiduV1_parse_result fl response of
               Inl e \<Rightarrow> Inl e
             | Inr l \<Rightarrow> Inr (Some l))))"
  by (simp add: BaiduV1_parse_json_def Let_def split: sum.splits)

lemma fst_BaiduV2_parse_json:
  "fst (BaiduV2_parse_json fl response exactly_one w) =
     (case py_get response ''results'' (JArr []) of
        Inl e \<Rightarrow> Inl e
      | Inr result \<Rightarrow>
     (case py_len result of
        Inl e \<Rightarrow> Inl e
      | Inr n \<Rightarrow>
          if n = 0 then
            (case py_get response ''status'' JNull of
               Inl e \<Rightarrow> Inl e
             | Inr status \<Rightarrow>
            (case BaiduV2_check_status fl status of
               Inl e \<Rightarrow> Inl e
             | Inr _ \<Rightarrow> Inr None))
          else
            (case BaiduV2_parse_result fl response of
               Inl e \<Rightarrow> Inl e
             | Inr l \<Rightarrow> Inr (Some l))))"
  by (simp add: BaiduV2_parse_json_def Let_def split: sum.splits)

lemma snd_BaiduV1_parse_json:
  "snd (BaiduV1_parse_json fl response exactly_one w) = logger (LogDebugObj response) w"
  by (simp add: BaiduV1_parse_json_def Let_def split: sum.splits)

lemma snd_BaiduV2_parse_json:
  "snd (BaiduV2_parse_json fl response exactly_one w) = logger (LogWarnObj response) w"
  by (simp add: BaiduV2_parse_json_def Let_def split: sum.splits)

text \<open>Only the status check raises a query error.\<close>

lemma py_getitem_not_query: "py_getitem v k \<noteq> Inl (GeocoderQueryError m)"
  by (cases v) (auto split: option.splits)

lemma py_get_not_query: "py_get v k d \<noteq> Inl (GeocoderQueryError m)"
  by (cases v) (auto split: option.splits)

lemma py_float_not_query: "py_float fl v \<noteq> Inl (GeocoderQueryError m)"
  by (cases v) (auto split: option.splits)

lemma py_len_not_query: "py_len v \<noteq> Inl (GeocoderQueryError m)"
  by (cases v) auto

lemma convert_pair_not_query: "convert_pair fl a b \<noteq> Inl (GeocoderQueryError m)"
  by (auto simp: convert_pair_def py_float_not_query split: sum.splits)

lemma Location_init_not_query:
  "Location_init fl a p raw \<noteq> Inl (GeocoderQueryError m)"
  by (auto simp: Location_init_def split: sum.splits option.splits)

lemma BaiduV1_parse_result_not_query:
  "BaiduV1_parse_result fl r \<noteq> Inl (GeocoderQueryError m)"
  by (auto simp: BaiduV1_parse_result_def py_getitem_not_query py_get_not_query
      convert_pair_not_query Location_init_not_query split: sum.splits)

lemma BaiduV1_query_error_only_if_empty:
  assumes "fst (BaiduV1_parse_json fl response exactly_one w) = Inl (GeocoderQueryError m)"
  shows "\<exists>res. py_get response ''result'' (JArr []) = Inr res \<and> py_len res = Inr 0"
  using assms
  by (auto simp: fst_BaiduV1_parse_json py_get_not_query py_len_not_query
      BaiduV1_parse_result_not_query split: sum.splits if_splits)

lemma invalid_key_contained: "sublist ''Invalid key'' ''Invalid key.''"
proof -
  have "prefix ''Invalid key'' (''Invalid key'' @ ''.'')"
    by (rule prefixI) simp
  then show ?thesis
    by (simp add: prefix_imp_sublist)
qed

lemma BaiduV2_check_status_cases:
  "BaiduV2_check_status fl status =
     (case py_as_int fl status of
        None \<Rightarrow> Inl (GeocoderQueryError ''Unknown error.'')
      | Some n \<Rightarrow>
          if n = 0 then Inr ()
          else if n = 1 then Inl (GeocoderQueryError ''Server internal error.'')
          else if n = 2 then Inl (GeocoderQueryError ''Invalid request.'')
          else if n = 3 then Inl (GeocoderQueryError ''Permission validation failed.'')
          else if n = 4 then Inl (GeocoderQueryError ''Quota validation failed.'')
          else if n = 5 then Inl (GeocoderQueryError ''Invalid ak.'')
          else if n = 101 then Inl (GeocoderQueryError ''Service disabled.'')
          else if n = 102
            then Inl (GeocoderQueryError
                        ''Failed to pass the whitelist or wrong security code.'')
          else Inl (GeocoderQueryError ''Unknown error.''))"
  by (simp add: BaiduV2_check_status_def py_eq_int_def split: option.splits)

lemma BaiduV2_parse_result_not_query:
  "BaiduV2_parse_result fl r \<noteq> Inl (GeocoderQueryError m)"
  by (auto simp: BaiduV2_parse_result_def py_getitem_not_query py_get_not_query
      convert_pair_not_query Location_init_not_query split: sum.splits)


text \<open>What the parser hands the constructor when exactly one axis of the payload is falsy.\<close>

lemma convert_pair_one_axis_falsy:
  "py_truthy fl lat \<and> \<not> py_truthy fl lng \<Longrightarrow>
     convert_pair fl (py_or_None fl lat) (py_or_None fl lng) = Inr (lat, JNull)"
  "\<not> py_truthy fl lat \<and> py_truthy fl lng \<Longrightarrow>
     convert_pair fl (py_or_None fl lat) (py_or_None fl lng) = Inr (JNull, lng)"
  by (simp_all add: convert_pair_def py_or_None_def)








section \<open>The coordinate pair of a result\<close>



section \<open>The documented V2 response\<close>

text \<open>
  C2: on a V2 response of the documented shape, with \<open>level\<close> and \<open>location\<close> inside the
  first entry of \<open>results\<close>, the claim expects a result labelled with that \<open>level\<close>. The
  code subscripts the response itself with \<open>'level'\<close> (lines 132 and 142) and raises
  \<open>KeyError\<close>.
\<close>

theorem BaiduV2_parse_json_documented_shape_raises:
  "fst (BaiduV2_parse_json ideal_float v2_documented True world0) = Inl (KeyError ''level'')"
  by (simp add: fst_BaiduV2_parse_json BaiduV2_parse_result_def v2_documented_def)

section \<open>Status validation\<close>

text \<open>
  C3: for a BaiduV1 response whose \<open>result\<close> collection is empty, \<open>_parse_json\<close> is decided
  by the status. \<open>"OK"\<close> returns \<open>None\<close>; a status equal to the number 1 raises the query
  error for a server internal error; \<open>"INVILID_KEY"\<close> raises a query error whose message
  contains "Invalid key"; \<open>"INVALID_PARAMETERS"\<close> raises the one for invalid parameters; every
  other status, a missing one too, raises the unknown-error one. A query error is raised
  only when the collection is empty.
\<close>

theorem BaiduV1_parse_json_empty_result_status:
  "(py_get response ''result'' (JArr []) = Inr result \<and> py_len result = Inr 0 \<and>
    py_get response ''status'' JNull = Inr status \<longrightarrow>
      fst (BaiduV1_parse_json fl response exactly_one w) =
        (if status = JStr ''OK'' then Inr None
         else if py_as_int fl status = Some 1
           then Inl (GeocoderQueryError ''Server internal error.'')
         else if status = JStr ''INVILID_KEY'' then Inl (GeocoderQueryError ''Invalid key.'')
         else if status = JStr ''INVALID_PARAMETERS''
           then Inl (GeocoderQueryError ''INVALID PARAMETERS.'')
         else Inl (GeocoderQueryError ''Unknown error.'')) \<and>
      (status = JStr ''INVILID_KEY'' \<longrightarrow>
         (\<exists>msg. fst (BaiduV1_parse_json fl response exactly_one w) =
                  Inl (GeocoderQueryError msg) \<and> sublist ''Invalid key'' msg))) \<and>
   (fst (BaiduV1_parse_json fl response exactly_one w) = Inl (GeocoderQueryError m) \<longrightarrow>
      (\<exists>res. py_get response ''result'' (JArr []) = Inr res \<and> py_len res = Inr 0))"
proof (intro conjI impI)
  assume a: "py_get response ''result'' (JArr []) = Inr result \<and> py_len result = Inr 0 \<and>
    py_get response ''status'' JNull = Inr status"
  then show c: "fst (BaiduV1_parse_json fl response exactly_one w) =
        (if status = JStr ''OK'' then Inr None
         else if py_as_int fl status = Some 1
           then Inl (GeocoderQueryError ''Server internal error.'')
         else if status = JStr ''INVILID_KEY'' then Inl (GeocoderQueryError ''Invalid key.'')
         else if status = JStr ''INVALID_PARAMETERS''
           then Inl (GeocoderQueryError ''INVALID PARAMETERS.'')
         else Inl (GeocoderQueryError ''Unknown error.''))"
    by (simp add: fst_BaiduV1_parse_json BaiduV1_check_status_def py_eq_str_def
        py_eq_int_def)
  assume "status = JStr ''INVILID_KEY''"
  with c have "fst (BaiduV1_parse_json fl response exactly_one w) =
      Inl (GeocoderQueryError ''Invalid key.'')"
    by simp
  with invalid_key_contained
  show "\<exists>msg. fst (BaiduV1_parse_json fl response exactly_one w) =
                  Inl (GeocoderQueryError msg) \<and> sublist ''Invalid key'' msg"
    by blast
next
  assume "fst (BaiduV1_parse_json fl response exactly_one w) = Inl (GeocoderQueryError m)"
  then show "\<exists>res. py_get response ''result'' (JArr []) = Inr res \<and> py_len res = Inr 0"
    by (rule BaiduV1_query_error_only_if_empty)
qed

text \<open>The property at five empty V1 responses, one for each branch of the status check.\<close>

theorem BaiduV1_parse_json_empty_result_status_witness:
  "fst (BaiduV1_parse_json ideal_float (v1_empty (JStr ''OK'')) True world0) = Inr None \<and>
   fst (BaiduV1_parse_json ideal_float (v1_empty (JInt 1)) True world0) =
     Inl (GeocoderQueryError ''Server internal error.'') \<and>
   fst (BaiduV1_parse_json ideal_float (v1_empty (JStr ''INVILID_KEY'')) True world0) =
     Inl (GeocoderQueryError ''Invalid key.'') \<and>
   fst (BaiduV1_parse_json ideal_float (v1_empty (JStr ''INVALID_PARAMETERS'')) True world0) =
     Inl (GeocoderQueryError ''INVALID PARAMETERS.'') \<and>
   fst (BaiduV1_parse_json ideal_float (v1_empty (JStr ''DENIED'')) True world0) =
     Inl (GeocoderQueryError ''Unknown error.'') \<and>
   py_len (JArr [] :: real json) = Inr 0"
  using
    BaiduV1_parse_json_empty_result_status
      [of "v1_empty (JStr ''OK'')" "JArr []" "JStr ''OK''" ideal_float True world0]
    BaiduV1_parse_json_empty_result_status
      [of "v1_empty (JInt 1)" "JArr []" "JInt 1" ideal_float True world0]
    BaiduV1_parse_json_empty_result_status
      [of "v1_empty (JStr ''INVILID_KEY'')" "JArr []" "JStr ''INVILID_KEY''" ideal_float
        True world0]
    BaiduV1_parse_json_empty_result_status
      [of "v1_empty (JStr ''INVALID_PARAMETERS'')" "JArr []" "JStr ''INVALID_PARAMETERS''"
        ideal_float True world0]
    BaiduV1_parse_json_empty_result_status
      [of "v1_empty (JStr ''DENIED'')" "JArr []" "JStr ''DENIED''" ideal_float True world0]
  by (simp add: v1_empty_def)

text \<open>
  C4: for a BaiduV2 response whose \<open>results\<close> collection is empty, \<open>_parse_json\<close> is decided
  by the number the status is equal to. 0 returns \<open>None\<close>; 1, 2, 3, 4, 5, 101 and 102 raise
  the query errors for internal error, invalid request, permission failure, quota failure,
  invalid ak, disabled service and whitelist or security-code failure; every other number,
  999 for one, and every status that is no number raise the query error "Unknown error.".
\<close>

theorem BaiduV2_parse_json_empty_results_status:
  "py_get response ''results'' (JArr []) = Inr result \<and> py_len result = Inr 0 \<and>
    py_get response ''status'' JNull = Inr status \<longrightarrow>
      fst (BaiduV2_parse_json fl response exactly_one w) =
        (case py_as_int fl status of
           None \<Rightarrow> Inl (GeocoderQueryError ''Unknown error.'')
         | Some n \<Rightarrow>
             if n = 0 then Inr None
             else if n = 1 then Inl (GeocoderQueryError ''Server internal error.'')
             else if n = 2 then Inl (GeocoderQueryError ''Invalid request.'')
             else if n = 3 then Inl (GeocoderQueryError ''Permission validation failed.'')
             else if n = 4 then Inl (GeocoderQueryError ''Quota validation failed.'')
             else if n = 5 then Inl (GeocoderQueryError ''Invalid ak.'')
             else if n = 101 then Inl (GeocoderQueryError ''Service disabled.'')
             else if n = 102
               then Inl (GeocoderQueryError
                           ''Failed to pass the whitelist or wrong security code.'')
             else Inl (GeocoderQueryError ''Unknown error.''))"
  by (simp add: fst_BaiduV2_parse_json BaiduV2_check_status_cases split: option.splits)

text \<open>The property at empty V2 responses with the statuses 0, 1, 2, 3, 4, 5, 101, 102, 999
  and a missing status.\<close>

theorem BaiduV2_parse_json_empty_results_status_witness:
  "fst (BaiduV2_parse_json ideal_float (v2_empty (JInt 0)) True world0) = Inr None \<and>
   fst (BaiduV2_parse_json ideal_float (v2_empty (JInt 1)) True world0) =
     Inl (GeocoderQueryError ''Server internal error.'') \<and>
   fst (BaiduV2_parse_json ideal_float (v2_empty (JInt 2)) True world0) =
     Inl (GeocoderQueryError ''Invalid request.'') \<and>
   fst (BaiduV2_parse_json ideal_float (v2_empty (JInt 3)) True world0) =
     Inl (GeocoderQueryError ''Permission validation failed.'') \<and>
   fst (BaiduV2_parse_json ideal_float (v2_empty (JInt 4)) True world0) =
     Inl (GeocoderQueryError ''Quota validation failed.'') \<and>
   fst (BaiduV2_parse_json ideal_float (v2_empty (JInt 5)) True world0) =
     Inl (GeocoderQueryError ''Invalid ak.'') \<and>
   fst (BaiduV2_parse_json ideal_float (v2_empty (JInt 101)) True world0) =
     Inl (GeocoderQueryError ''Service disabled.'') \<and>
   fst (BaiduV2_parse_json ideal_float (v2_empty (JInt 102)) True world0) =
     Inl (GeocoderQueryError ''Failed to pass the whitelist or wrong security code.'') \<and>
   fst (BaiduV2_parse_json ideal_float (v2_empty (JInt 999)) True world0) =
     Inl (GeocoderQueryError ''Unknown error.'') \<and>
   fst (BaiduV2_parse_json ideal_float (JObj [(''results'', JArr [])]) True world0) =
     Inl (GeocoderQueryError ''Unknown error.'')"
  using
    BaiduV2_parse_json_empty_results_status
      [of "v2_empty (JInt 0)" "JArr []" "JInt 0" ideal_float True world0]
    BaiduV2_parse_json_empty_results_status
      [of "v2_empty (JInt 1)" "JArr []" "JInt 1" ideal_float True world0]
    BaiduV2_parse_json_empty_results_status
      [of "v2_empty (JInt 2)" "JArr []" "JInt 2" ideal_float True world0]
    BaiduV2_parse_json_empty_results_status
      [of "v2_empty (JInt 3)" "JArr []" "JInt 3" ideal_float True world0]
    BaiduV2_parse_json_empty_results_status
      [of "v2_empty (JInt 4)" "JArr []" "JInt 4" ideal_float True world0]
    BaiduV2_parse_json_empty_results_status
      [of "v2_empty (JInt 5)" "JArr []" "JInt 5" ideal_float True world0]
    BaiduV2_parse_json_empty_results_status
      [of "v2_empty (JInt 101)" "JArr []" "JInt 101" ideal_float True world0]
    BaiduV2_parse_json_empty_results_status
      [of "v2_empty (JInt 102)" "JArr []" "JInt 102" ideal_float True world0]
    BaiduV2_parse_json_empty_results_status
      [of "v2_empty (JInt 999)" "JArr []" "JInt 999" ideal_float True world0]
    BaiduV2_parse_json_empty_results_status
      [of "JObj [(''results'', JArr [])]" "JArr []" JNull ideal_float True world0]
  by (simp add: v2_empty_def)

section \<open>Malformed payloads\<close>

text \<open>
  C9: some responses with a non-empty result collection make \<open>_parse_json\<close> fail with a
  \<open>KeyError\<close>, which is neither \<open>None\<close> nor a query error. For BaiduV1: a non-empty
  \<open>result\<close> dictionary without \<open>location\<close>, a \<open>location\<close> without \<open>lat\<close>, or one with
  \<open>lat\<close> and without \<open>lng\<close>. For BaiduV2: a response with non-empty \<open>results\<close> and no
  \<open>level\<close> of its own, or with \<open>level\<close> and no \<open>location\<close>.
\<close>

theorem parse_json_missing_key_raises_KeyError:
  "(py_get response ''result'' (JArr []) = Inr (JObj kvs) \<and> kvs \<noteq> [] \<and>
    map_of kvs ''location'' = None \<longrightarrow>
      fst (BaiduV1_parse_json fl response exactly_one w) = Inl (KeyError ''location'')) \<and>
   (py_get response ''result'' (JArr []) = Inr (JObj kvs) \<and>
    map_of kvs ''location'' = Some (JObj lkvs) \<and> map_of lkvs ''lat'' = None \<longrightarrow>
      fst (BaiduV1_parse_json fl response exactly_one w) = Inl (KeyError ''lat'')) \<and>
   (py_get response ''result'' (JArr []) = Inr (JObj kvs) \<and>
    map_of kvs ''location'' = Some (JObj lkvs) \<and> map_of lkvs ''lat'' = Some lat \<and>
    map_of lkvs ''lng'' = None \<longrightarrow>
      fst (BaiduV1_parse_json fl response exactly_one w) = Inl (KeyError ''lng'')) \<and>
   (py_get (JObj rkvs) ''results'' (JArr []) = Inr results \<and>
    py_len results = Inr (Suc n) \<and> map_of rkvs ''level'' = None \<longrightarrow>
      fst (BaiduV2_parse_json fl (JObj rkvs) exactly_one w) = Inl (KeyError ''level'')) \<and>
   (py_get (JObj rkvs) ''results'' (JArr []) = Inr results \<and>
    py_len results = Inr (Suc n) \<and> map_of rkvs ''level'' = Some level \<and>
    map_of rkvs ''location'' = None \<longrightarrow>
      fst (BaiduV2_parse_json fl (JObj rkvs) exactly_one w) = Inl (KeyError ''location''))"
proof (intro conjI impI)
  assume a: "py_get response ''result'' (JArr []) = Inr (JObj kvs) \<and> kvs \<noteq> [] \<and>
    map_of kvs ''location'' = None"
  then obtain rkvs' where r: "response = JObj rkvs'"
    by (cases response) auto
  with a have g: "map_of rkvs' ''result'' = Some (JObj kvs)"
    by (auto split: option.splits)
  from a have "length (remdups (map fst kvs)) \<noteq> 0"
    by simp
  with a r g
  show "fst (BaiduV1_parse_json fl response exactly_one w) = Inl (KeyError ''location'')"
    by (simp add: fst_BaiduV1_parse_json BaiduV1_parse_result_def)
next
  assume a: "py_get response ''result'' (JArr []) = Inr (JObj kvs) \<and>
    map_of kvs ''location'' = Some (JObj lkvs) \<and> map_of lkvs ''lat'' = None"
  then obtain rkvs' where r: "response = JObj rkvs'"
    by (cases response) auto
  with a have g: "map_of rkvs' ''result'' = Some (JObj kvs)"
    by (auto split: option.splits)
  from a have "kvs \<noteq> []"
    by auto
  then have "length (remdups (map fst kvs)) \<noteq> 0"
    by simp
  with a r g
  show "fst (BaiduV1_parse_json fl response exactly_one w) = Inl (KeyError ''lat'')"
    by (simp add: fst_BaiduV1_parse_json BaiduV1_parse_result_def)
next
  assume a: "py_get response ''result'' (JArr []) = Inr (JObj kvs) \<and>
    map_of kvs ''location'' = Some (JObj lkvs) \<and> map_of lkvs ''lat'' = Some lat \<and>
    map_of lkvs ''lng'' = None"
  then obtain rkvs' where r: "response = JObj rkvs'"
    by (cases response) auto
  with a have g: "map_of rkvs' ''result'' = Some (JObj kvs)"
    by (auto split: option.splits)
  from a have "kvs \<noteq> []"
    by auto
  then have "length (remdups (map fst kvs)) \<noteq> 0"
    by simp
  with a r g
  show "fst (BaiduV1_parse_json fl response exactly_one w) = Inl (KeyError ''lng'')"
    by (simp add: fst_BaiduV1_parse_json BaiduV1_parse_result_def)
next
  assume "py_get (JObj rkvs) ''results'' (JArr []) = Inr results \<and>
    py_len results = Inr (Suc n) \<and> map_of rkvs ''level'' = None"
  then show "fst (BaiduV2_parse_json fl (JObj rkvs) exactly_one w) = Inl (KeyError ''level'')"
    by (simp add: fst_BaiduV2_parse_json BaiduV2_parse_result_def)
next
  assume "py_get (JObj rkvs) ''results'' (JArr []) = Inr results \<and>
    py_len results = Inr (Suc n) \<and> map_of rkvs ''level'' = Some level \<and>
    map_of rkvs ''location'' = None"
  then show
    "fst (BaiduV2_parse_json fl (JObj rkvs) exactly_one w) = Inl (KeyError ''location'')"
    by (simp add: fst_BaiduV2_parse_json BaiduV2_parse_result_def)
qed

text \<open>
  The property at five responses: a V1 result without \<open>location\<close>, one whose \<open>location\<close>
  is empty, one whose \<open>location\<close> has only \<open>lat\<close>, a V2 response without a \<open>level\<close> of
  its own, and a V2 response with \<open>level\<close> and without \<open>location\<close>.
\<close>

theorem parse_json_missing_key_raises_KeyError_witness:
  "fst (BaiduV1_parse_json ideal_float v1_no_location True world0) =
     Inl (KeyError ''location'') \<and>
   fst (BaiduV1_parse_json ideal_float
          (JObj [(''status'', JStr ''OK''), (''result'', JObj [(''location'', JObj [])])])
          True world0) = Inl (KeyError ''lat'') \<and>
   fst (BaiduV1_parse_json ideal_float
          (JObj [(''status'', JStr ''OK''),
                 (''result'', JObj [(''location'', JObj [(''lat'', JInt 39)])])])
          True world0) = Inl (KeyError ''lng'') \<and>
   fst (BaiduV2_parse_json ideal_float
          (JObj [(''status'', JInt 0), (''results'', JArr [JObj []])]) True world0) =
     Inl (KeyError ''level'') \<and>
   fst (BaiduV2_parse_json ideal_float
          (JObj [(''status'', JInt 0), (''results'', JArr [JObj []]),
                 (''level'', JStr ''road'')]) True world0) =
     Inl (KeyError ''location'')"
  using
    parse_json_missing_key_raises_KeyError
      [where response = v1_no_location and kvs = "[(''formatted_address'', JStr ''Haidian'')]"
        and fl = ideal_float and exactly_one = True and w = world0]
    parse_json_missing_key_raises_KeyError
      [where response = "JObj [(''status'', JStr ''OK''),
                               (''result'', JObj [(''location'', JObj [])])]"
        and kvs = "[(''location'', JObj [])]" and lkvs = "[]"
        and fl = ideal_float and exactly_one = True and w = world0]
    parse_json_missing_key_raises_KeyError
      [where response = "JObj [(''status'', JStr ''OK''),
                               (''result'', JObj [(''location'', JObj [(''lat'', JInt 39)])])]"
        and kvs = "[(''location'', JObj [(''lat'', JInt 39)])]"
        and lkvs = "[(''lat'', JInt 39)]" and lat = "JInt 39"
        and fl = ideal_float and exactly_one = True and w = world0]
    parse_json_missing_key_raises_KeyError
      [where rkvs = "[(''status'', JInt 0), (''results'', JArr [JObj []])]"
        and results = "JArr [JObj []]" and n = 0
        and fl = ideal_float and exactly_one = True and w = world0]
    parse_json_missing_key_raises_KeyError
      [where rkvs = "[(''status'', JInt 0), (''results'', JArr [JObj []]),
                      (''level'', JStr ''road'')]"
        and results = "JArr [JObj []]" and n = 0 and level = "JStr ''road''"
        and fl = ideal_float and exactly_one = True and w = world0]
  by (simp add: v1_no_location_def)

section \<open>The argument \<open>exactly_one\<close>\<close>

text \<open>
  C7: \<open>exactly_one\<close> has no influence. For either value, \<open>_parse_json\<close>, \<open>geocode\<close> and
  \<open>reverse\<close> of both versions return the same result or raise the same error, and leave
  the same log records, requests and network state.
\<close>

theorem exactly_one_ignored:
  "BaiduV1_parse_json fl response e1 w = BaiduV1_parse_json fl response e2 w \<and>
   BaiduV2_parse_json fl response e1 w = BaiduV2_parse_json fl response e2 w \<and>
   BaiduV1_geocode env self1 query city e1 tmo w =
     BaiduV1_geocode env self1 query city e2 tmo w \<and>
   BaiduV2_geocode env self2 query city e1 tmo w =
     BaiduV2_geocode env self2 query city e2 tmo w \<and>
   BaiduV1_reverse env self1 point e1 tmo w = BaiduV1_reverse env self1 point e2 tmo w \<and>
   BaiduV2_reverse env self2 point coordtype e1 tmo w =
     BaiduV2_reverse env self2 point coordtype e2 tmo w"
proof -
  have p1: "\<And>r v. BaiduV1_parse_json fl r e1 v = BaiduV1_parse_json fl r e2 v"
    by (simp add: BaiduV1_parse_json_def)
  have p2: "\<And>r v. BaiduV2_parse_json fl r e1 v = BaiduV2_parse_json fl r e2 v"
    by (simp add: BaiduV2_parse_json_def)
  have q1: "\<And>r v. BaiduV1_parse_json (floats env) r e1 v =
      BaiduV1_parse_json (floats env) r e2 v"
    by (simp add: BaiduV1_parse_json_def)
  have q2: "\<And>r v. BaiduV2_parse_json (floats env) r e1 v =
      BaiduV2_parse_json (floats env) r e2 v"
    by (simp add: BaiduV2_parse_json_def)
  show ?thesis
    unfolding BaiduV1_geocode_def BaiduV2_geocode_def BaiduV1_reverse_def
      BaiduV2_reverse_def p1 p2 q1 q2
    by simp
qed

section \<open>Requests\<close>

lemma sent_logger: "sent (logger e w) = sent w"
  by (simp add: logger_def)

lemma sent_call_geocoder:
  "sent (snd (call_geocoder env url tmo w)) = sent w @ [(url, tmo)]"
  by (simp add: call_geocoder_def split: prod.splits)

lemma sent_BaiduV1_parse_json: "sent (snd (BaiduV1_parse_json fl r e w)) = sent w"
  by (simp add: snd_BaiduV1_parse_json sent_logger)

lemma sent_BaiduV2_parse_json: "sent (snd (BaiduV2_parse_json fl r e w)) = sent w"
  by (simp add: snd_BaiduV2_parse_json sent_logger)

text \<open>
  A call hands the transport exactly one request, the URL it built, or none when building
  the URL raised.
\<close>

lemma sent_BaiduV1_geocode:
  "sent (snd (BaiduV1_geocode env self query city e tmo w)) =
     sent w @ (case BaiduV1_geocode_url env self query city of
                 Inl err \<Rightarrow> [] | Inr url \<Rightarrow> [(url, tmo)])"
proof (cases "BaiduV1_geocode_url env self query city")
  case (Inl err)
  then show ?thesis
    by (simp add: BaiduV1_geocode_def)
next
  case u: (Inr url)
  let ?w1 = "logger (LogDebug (''BaiduV1'' @ ''.geocode: '' @ url)) w"
  obtain r w2 where c: "call_geocoder env url tmo ?w1 = (r, w2)"
    by (cases "call_geocoder env url tmo ?w1")
  then have s: "sent w2 = sent w @ [(url, tmo)]"
    using sent_call_geocoder [of env url tmo ?w1] by (simp add: sent_logger)
  show ?thesis
  proof (cases r)
    case (Inl err)
    with u c s show ?thesis
      by (simp add: BaiduV1_geocode_def Let_def)
  next
    case (Inr response)
    with u c s show ?thesis
      by (simp add: BaiduV1_geocode_def Let_def sent_BaiduV1_parse_json)
  qed
qed

lemma sent_BaiduV2_geocode:
  "sent (snd (BaiduV2_geocode env self query city e tmo w)) =
     sent w @ (case BaiduV2_geocode_url env self query city of
                 Inl err \<Rightarrow> [] | Inr url \<Rightarrow> [(url, tmo)])"
proof (cases "BaiduV2_geocode_url env self query city")
  case (Inl err)
  then show ?thesis
    by (simp add: BaiduV2_geocode_def)
next
  case u: (Inr url)
  let ?w1 = "logger (LogDebug (''BaiduV2'' @ ''.geocode: '' @ url)) w"
  obtain r w2 where c: "call_geocoder env url tmo ?w1 = (r, w2)"
    by (cases "call_geocoder env url tmo ?w1")
  then have s: "sent w2 = sent w @ [(url, tmo)]"
    using sent_call_geocoder [of env url tmo ?w1] by (simp add: sent_logger)
  show ?thesis
  proof (cases r)
    case (Inl err)
    with u c s show ?thesis
      by (simp add: BaiduV2_geocode_def Let_def)
  next
    case (Inr response)
    with u c s show ?thesis
      by (simp add: BaiduV2_geocode_def Let_def sent_BaiduV2_parse_json)
  qed
qed

lemma sent_BaiduV1_reverse:
  "sent (snd (BaiduV1_reverse env self point e tmo w)) =
     sent w @ (case BaiduV1_reverse_url env self point of
                 Inl err \<Rightarrow> [] | Inr url \<Rightarrow> [(url, tmo)])"
proof (cases "BaiduV1_reverse_url env self point")
  case (Inl err)
  then show ?thesis
    by (simp add: BaiduV1_reverse_def)
next
  case u: (Inr url)
  let ?w1 = "logger (LogDebug (''BaiduV1'' @ ''.reverse: '' @ url)) w"
  obtain r w2 where c: "call_geocoder env url tmo ?w1 = (r, w2)"
    by (cases "call_geocoder env url tmo ?w1")
  then have s: "sent w2 = sent w @ [(url, tmo)]"
    using sent_call_geocoder [of env url tmo ?w1] by (simp add: sent_logger)
  show ?thesis
  proof (cases r)
    case (Inl err)
    with u c s show ?thesis
      by (simp add: BaiduV1_reverse_def Let_def)
  next
    case (Inr response)
    with u c s show ?thesis
      by (simp add: BaiduV1_reverse_def Let_def sent_BaiduV1_parse_json)
  qed
qed

lemma sent_BaiduV2_reverse:
  "sent (snd (BaiduV2_reverse env self point coordtype e tmo w)) =
     sent w @ (case BaiduV2_reverse_url env self point coordtype of
                 Inl err \<Rightarrow> [] | Inr url \<Rightarrow> [(url, tmo)])"
proof (cases "BaiduV2_reverse_url env self point coordtype")
  case (Inl err)
  then show ?thesis
    by (simp add: BaiduV2_reverse_def)
next
  case u: (Inr url)
  let ?w1 = "logger (LogDebug (''BaiduV2'' @ ''.reverse: '' @ url)) w"
  obtain r w2 where c: "call_geocoder env url tmo ?w1 = (r, w2)"
    by (cases "call_geocoder env url tmo ?w1")
  then have s: "sent w2 = sent w @ [(url, tmo)]"
    using sent_call_geocoder [of env url tmo ?w1] by (simp add: sent_logger)
  show ?thesis
  proof (cases r)
    case (Inl err)
    with u c s show ?thesis
      by (simp add: BaiduV2_reverse_def Let_def)
  next
    case (Inr response)
    with u c s show ?thesis
      by (simp add: BaiduV2_reverse_def Let_def sent_BaiduV2_parse_json)
  qed
qed

lemma BaiduV1_geocode_params_eq:
  "percent env (format_string self) query = Inr address \<Longrightarrow>
   BaiduV1_geocode_params env self query city =
     Inr ([(''address'', address), (''output'', ''json''), (''key'', key self)] @
          city_items city)"
  by (simp add: BaiduV1_geocode_params_def city_items_def split: option.splits)

lemma BaiduV2_geocode_params_eq:
  "percent env (format_string self) query = Inr address \<Longrightarrow>
   BaiduV2_geocode_params env self query city =
     Inr ([(''address'', address), (''output'', ''json''), (''ak'', ak self)] @
          city_items city)"
  by (simp add: BaiduV2_geocode_params_def city_items_def split: option.splits)

text \<open>
  C5: \<open>BaiduV1.geocode\<close> builds exactly the parameters \<open>address\<close> (the template applied to
  the query), \<open>output = json\<close> and \<open>key\<close> (the credential), and \<open>city\<close> only when a city
  is given (and truthy); it hands the transport the URL
  \<open>{scheme}://api.map.baidu.com/geocoder\<close>, \<open>?\<close>, and the encoded parameters.
  \<open>BaiduV2.geocode\<close> does the same with \<open>ak\<close> for \<open>key\<close> and the path \<open>/geocoder/v2/\<close>.
\<close>

theorem geocode_request_parameters:
  "percent env fs query = Inr address \<and>
   urlencode env ([(''address'', address), (''output'', ''json''), (''key'', k)] @
                  city_items city) = Inr qs1 \<and>
   urlencode env ([(''address'', address), (''output'', ''json''), (''ak'', k)] @
                  city_items city) = Inr qs2 \<longrightarrow>
     BaiduV1_geocode_params env (BaiduV1_init k fs sch t0 prx) query city =
       Inr ([(''address'', address), (''output'', ''json''), (''key'', k)] @
            city_items city) \<and>
     BaiduV1_geocode_url env (BaiduV1_init k fs sch t0 prx) query city =
       Inr (sch @ ''://api.map.baidu.com/geocoder'' @ ''?'' @ qs1) \<and>
     sent (snd (BaiduV1_geocode env (BaiduV1_init k fs sch t0 prx) query city e tmo w)) =
       sent w @ [(sch @ ''://api.map.baidu.com/geocoder'' @ ''?'' @ qs1, tmo)] \<and>
     BaiduV2_geocode_params env (BaiduV2_init k fs sch t0 prx) query city =
       Inr ([(''address'', address), (''output'', ''json''), (''ak'', k)] @
            city_items city) \<and>
     BaiduV2_geocode_url env (BaiduV2_init k fs sch t0 prx) query city =
       Inr (sch @ ''://api.map.baidu.com/geocoder/v2/'' @ ''?'' @ qs2) \<and>
     sent (snd (BaiduV2_geocode env (BaiduV2_init k fs sch t0 prx) query city e tmo w)) =
       sent w @ [(sch @ ''://api.map.baidu.com/geocoder/v2/'' @ ''?'' @ qs2, tmo)]"
proof (intro impI)
  let ?ps1 = "[(''address'', address), (''output'', ''json''), (''key'', k)] @ city_items city"
  let ?ps2 = "[(''address'', address), (''output'', ''json''), (''ak'', k)] @ city_items city"
  let ?s1 = "BaiduV1_init k fs sch t0 prx" and ?s2 = "BaiduV2_init k fs sch t0 prx"
  assume a: "percent env fs query = Inr address \<and> urlencode env ?ps1 = Inr qs1 \<and>
    urlencode env ?ps2 = Inr qs2"
  then have pc: "percent env fs query = Inr address"
    and e1: "urlencode env ?ps1 = Inr qs1" and e2: "urlencode env ?ps2 = Inr qs2"
    by blast+
  have f1: "format_string ?s1 = fs" "key ?s1 = k"
    "api ?s1 = sch @ ''://api.map.baidu.com/geocoder''"
    by (simp_all add: BaiduV1_init_def)
  have f2: "format_string ?s2 = fs" "ak ?s2 = k"
    "api2 ?s2 = sch @ ''://api.map.baidu.com/geocoder/v2/''"
    by (simp_all add: BaiduV2_init_def)
  have p1: "BaiduV1_geocode_params env ?s1 query city = Inr ?ps1"
    using BaiduV1_geocode_params_eq [of env ?s1 query address city] pc
    unfolding f1 by blast
  have p2: "BaiduV2_geocode_params env ?s2 query city = Inr ?ps2"
    using BaiduV2_geocode_params_eq [of env ?s2 query address city] pc
    unfolding f2 by blast
  have u1: "BaiduV1_geocode_url env ?s1 query city =
       Inr (sch @ ''://api.map.baidu.com/geocoder'' @ ''?'' @ qs1)"
    unfolding BaiduV1_geocode_url_def p1 f1 using e1 by simp
  have u2: "BaiduV2_geocode_url env ?s2 query city =
       Inr (sch @ ''://api.map.baidu.com/geocoder/v2/'' @ ''?'' @ qs2)"
    unfolding BaiduV2_geocode_url_def p2 f2 using e2 by simp
  have t1: "sent (snd (BaiduV1_geocode env ?s1 query city e tmo w)) =
       sent w @ [(sch @ ''://api.map.baidu.com/geocoder'' @ ''?'' @ qs1, tmo)]"
    unfolding sent_BaiduV1_geocode u1 by simp
  have t2: "sent (snd (BaiduV2_geocode env ?s2 query city e tmo w)) =
       sent w @ [(sch @ ''://api.map.baidu.com/geocoder/v2/'' @ ''?'' @ qs2, tmo)]"
    unfolding sent_BaiduV2_geocode u2 by simp
  from p1 u1 t1 p2 u2 t2
  show "BaiduV1_geocode_params env ?s1 query city = Inr ?ps1 \<and>
     BaiduV1_geocode_url env ?s1 query city =
       Inr (sch @ ''://api.map.baidu.com/geocoder'' @ ''?'' @ qs1) \<and>
     sent (snd (BaiduV1_geocode env ?s1 query city e tmo w)) =
       sent w @ [(sch @ ''://api.map.baidu.com/geocoder'' @ ''?'' @ qs1, tmo)] \<and>
     BaiduV2_geocode_params env ?s2 query city = Inr ?ps2 \<and>
     BaiduV2_geocode_url env ?s2 query city =
       Inr (sch @ ''://api.map.baidu.com/geocoder/v2/'' @ ''?'' @ qs2) \<and>
     sent (snd (BaiduV2_geocode env ?s2 query city e tmo w)) =
       sent w @ [(sch @ ''://api.map.baidu.com/geocoder/v2/'' @ ''?'' @ qs2, tmo)]"
    by blast
qed

text \<open>
  The property at the query \<open>Shanghai\<close>: with the city \<open>Pudong\<close> for V1 and the key
  \<open>K1\<close>, without a city for V2 and the key \<open>K2\<close>.
\<close>

theorem geocode_request_parameters_witness:
  "BaiduV1_geocode_params example_env example_v1 ''Shanghai'' (Some ''Pudong'') =
     Inr [(''address'', ''Shanghai''), (''output'', ''json''), (''key'', ''K1''),
          (''city'', ''Pudong'')] \<and>
   BaiduV1_geocode_url example_env example_v1 ''Shanghai'' (Some ''Pudong'') =
     Inr ''http://api.map.baidu.com/geocoder?address=Shanghai&output=json&key=K1&city=Pudong'' \<and>
   sent (snd (BaiduV1_geocode example_env example_v1 ''Shanghai'' (Some ''Pudong'') True None
                world0)) =
     [(''http://api.map.baidu.com/geocoder?address=Shanghai&output=json&key=K1&city=Pudong'',
       None)] \<and>
   BaiduV2_geocode_params example_env example_v2 ''Shanghai'' None =
     Inr [(''address'', ''Shanghai''), (''output'', ''json''), (''ak'', ''K2'')] \<and>
   BaiduV2_geocode_url example_env example_v2 ''Shanghai'' None =
     Inr ''http://api.map.baidu.com/geocoder/v2/?address=Shanghai&output=json&ak=K2''"
proof -
  have h1: "percent example_env ''%s'' ''Shanghai'' = Inr ''Shanghai'' \<and>
      urlencode example_env ([(''address'', ''Shanghai''), (''output'', ''json''),
          (''key'', ''K1'')] @ city_items (Some ''Pudong'')) =
        Inr ''address=Shanghai&output=json&key=K1&city=Pudong'' \<and>
      urlencode example_env ([(''address'', ''Shanghai''), (''output'', ''json''),
          (''ak'', ''K1'')] @ city_items (Some ''Pudong'')) =
        Inr ''address=Shanghai&output=json&ak=K1&city=Pudong''"
    by (simp add: example_env_def city_items_def)
  have h2: "percent example_env ''%s'' ''Shanghai'' = Inr ''Shanghai'' \<and>
      urlencode example_env ([(''address'', ''Shanghai''), (''output'', ''json''),
          (''key'', ''K2'')] @ city_items None) =
        Inr ''address=Shanghai&output=json&key=K2'' \<and>
      urlencode example_env ([(''address'', ''Shanghai''), (''output'', ''json''),
          (''ak'', ''K2'')] @ city_items None) =
        Inr ''address=Shanghai&output=json&ak=K2''"
    by (simp add: example_env_def city_items_def)
  show ?thesis
    using geocode_request_parameters [THEN mp, OF h1, of "''http''" 1 None True None world0]
      geocode_request_parameters [THEN mp, OF h2, of "''http''" 1 None True None world0]
    by (simp add: example_v1_def example_v2_def world0_def city_items_def)
qed

text \<open>
  C6: \<open>reverse\<close> builds the parameter \<open>location\<close>, the query coerced to \<open>lat,lng\<close> text,
  beside \<open>output = json\<close> and the version's credential parameter, in both versions;
  \<open>BaiduV2.reverse\<close> adds \<open>coordtype\<close>, which is \<open>bd09ll\<close> when the caller gives none. The
  encoded parameters, after the endpoint and \<open>?\<close>, are the request.
\<close>

theorem reverse_request_parameters:
  "coerce_point_to_string env point = Inr location \<and>
   urlencode env [(''location'', location), (''output'', ''json''), (''key'', key self1)] =
     Inr qs1 \<and>
   urlencode env
     [(''location'', location),
      (''coordtype'', (case coordtype of None \<Rightarrow> ''bd09ll'' | Some c \<Rightarrow> c)),
      (''output'', ''json''), (''ak'', ak self2)] = Inr qs2 \<longrightarrow>
     BaiduV1_reverse_params env self1 point =
       Inr [(''location'', location), (''output'', ''json''), (''key'', key self1)] \<and>
     sent (snd (BaiduV1_reverse env self1 point e tmo w)) =
       sent w @ [(api self1 @ ''?'' @ qs1, tmo)] \<and>
     BaiduV2_reverse_params env self2 point None =
       Inr [(''location'', location), (''coordtype'', ''bd09ll''), (''output'', ''json''),
            (''ak'', ak self2)] \<and>
     BaiduV2_reverse_params env self2 point (Some ct) =
       Inr [(''location'', location), (''coordtype'', ct), (''output'', ''json''),
            (''ak'', ak self2)] \<and>
     sent (snd (BaiduV2_reverse env self2 point coordtype e tmo w)) =
       sent w @ [(api2 self2 @ ''?'' @ qs2, tmo)]"
proof (intro impI)
  let ?ct = "case coordtype of None \<Rightarrow> ''bd09ll'' | Some c \<Rightarrow> c"
  assume a: "coerce_point_to_string env point = Inr location \<and>
   urlencode env [(''location'', location), (''output'', ''json''), (''key'', key self1)] =
     Inr qs1 \<and>
   urlencode env
     [(''location'', location), (''coordtype'', ?ct),
      (''output'', ''json''), (''ak'', ak self2)] = Inr qs2"
  then have co: "coerce_point_to_string env point = Inr location"
    and e1: "urlencode env [(''location'', location), (''output'', ''json''),
                            (''key'', key self1)] = Inr qs1"
    and e2: "urlencode env [(''location'', location), (''coordtype'', ?ct),
                            (''output'', ''json''), (''ak'', ak self2)] = Inr qs2"
    by blast+
  have p1: "BaiduV1_reverse_params env self1 point =
       Inr [(''location'', location), (''output'', ''json''), (''key'', key self1)]"
    by (simp add: BaiduV1_reverse_params_def co)
  have p2: "\<And>c. BaiduV2_reverse_params env self2 point c =
       Inr [(''location'', location),
            (''coordtype'', (case c of None \<Rightarrow> ''bd09ll'' | Some c' \<Rightarrow> c')),
            (''output'', ''json''), (''ak'', ak self2)]"
    by (simp add: BaiduV2_reverse_params_def co)
  have u1: "BaiduV1_reverse_url env self1 point = Inr (api self1 @ ''?'' @ qs1)"
    by (simp add: BaiduV1_reverse_url_def p1 e1)
  have u2: "BaiduV2_reverse_url env self2 point coordtype = Inr (api2 self2 @ ''?'' @ qs2)"
    by (simp add: BaiduV2_reverse_url_def p2 e2)
  have t1: "sent (snd (BaiduV1_reverse env self1 point e tmo w)) =
       sent w @ [(api self1 @ ''?'' @ qs1, tmo)]"
    unfolding sent_BaiduV1_reverse u1 by simp
  have t2: "sent (snd (BaiduV2_reverse env self2 point coordtype e tmo w)) =
       sent w @ [(api2 self2 @ ''?'' @ qs2, tmo)]"
    unfolding sent_BaiduV2_reverse u2 by simp
  from p1 t1 t2 p2 [of None] p2 [of "Some ct"]
  show "BaiduV1_reverse_params env self1 point =
       Inr [(''location'', location), (''output'', ''json''), (''key'', key self1)] \<and>
     sent (snd (BaiduV1_reverse env self1 point e tmo w)) =
       sent w @ [(api self1 @ ''?'' @ qs1, tmo)] \<and>
     BaiduV2_reverse_params env self2 point None =
       Inr [(''location'', location), (''coordtype'', ''bd09ll''), (''output'', ''json''),
            (''ak'', ak self2)] \<and>
     BaiduV2_reverse_params env self2 point (Some ct) =
       Inr [(''location'', location), (''coordtype'', ct), (''output'', ''json''),
            (''ak'', ak self2)] \<and>
     sent (snd (BaiduV2_reverse env self2 point coordtype e tmo w)) =
       sent w @ [(api2 self2 @ ''?'' @ qs2, tmo)]"
    by simp
qed

text \<open>
  The property at the point (39.983424, 116.322987), with no \<open>coordtype\<close> given: both
  versions build \<open>location=39.983424,116.322987\<close>, and V2 adds \<open>coordtype=bd09ll\<close>.
\<close>

theorem reverse_request_parameters_witness:
  "BaiduV1_reverse_params example_env example_v1 (''39.983424'', ''116.322987'') =
     Inr [(''location'', ''39.983424,116.322987''), (''output'', ''json''),
          (''key'', ''K1'')] \<and>
   sent (snd (BaiduV1_reverse example_env example_v1 (''39.983424'', ''116.322987'') True None
                world0)) =
     [(''http://api.map.baidu.com/geocoder?location=39.983424,116.322987&output=json&key=K1'',
       None)] \<and>
   BaiduV2_reverse_params example_env example_v2 (''39.983424'', ''116.322987'') None =
     Inr [(''location'', ''39.983424,116.322987''), (''coordtype'', ''bd09ll''),
          (''output'', ''json''), (''ak'', ''K2'')] \<and>
   sent (snd (BaiduV2_reverse example_env example_v2 (''39.983424'', ''116.322987'') None True
                None world0)) =
     [(''http://api.map.baidu.com/geocoder/v2/?location=39.983424,116.322987&coordtype=bd09ll&output=json&ak=K2'',
       None)]"
proof -
  have h: "coerce_point_to_string example_env (''39.983424'', ''116.322987'') =
        Inr ''39.983424,116.322987'' \<and>
      urlencode example_env [(''location'', ''39.983424,116.322987''), (''output'', ''json''),
          (''key'', key example_v1)] =
        Inr ''location=39.983424,116.322987&output=json&key=K1'' \<and>
      urlencode example_env
        [(''location'', ''39.983424,116.322987''),
         (''coordtype'', (case None of None \<Rightarrow> ''bd09ll'' | Some c \<Rightarrow> c)),
         (''output'', ''json''), (''ak'', ak example_v2)] =
        Inr ''location=39.983424,116.322987&coordtype=bd09ll&output=json&ak=K2''"
    by (simp add: example_env_def example_v1_def example_v2_def BaiduV1_init_def
        BaiduV2_init_def)
  show ?thesis
    using reverse_request_parameters [THEN mp, OF h, of True None world0 "''gcj02ll''"]
    by (simp add: example_v1_def example_v2_def world0_def BaiduV1_init_def BaiduV2_init_def)
qed

text \<open>
  C8: two invocations of \<open>geocode\<close> with the same instance and the same query, city and
  timeout build the same request. Whatever the transport answers, whatever the world the
  first call leaves behind, and whatever \<open>exactly_one\<close> is, each call hands the transport
  the one request that the instance and the arguments determine.
\<close>

theorem geocode_request_deterministic:
  "(let req = (case BaiduV1_geocode_url env self1 query city of
                 Inl err \<Rightarrow> [] | Inr url \<Rightarrow> [(url, tmo)]);
        w1 = snd (BaiduV1_geocode env self1 query city e1 tmo w);
        w2 = snd (BaiduV1_geocode env self1 query city e2 tmo w1)
    in sent w1 = sent w @ req \<and> sent w2 = sent w1 @ req) \<and>
   (let req = (case BaiduV2_geocode_url env self2 query city of
                 Inl err \<Rightarrow> [] | Inr url \<Rightarrow> [(url, tmo)]);
        w1 = snd (BaiduV2_geocode env self2 query city e1 tmo w);
        w2 = snd (BaiduV2_geocode env self2 query city e2 tmo w1)
    in sent w1 = sent w @ req \<and> sent w2 = sent w1 @ req)"
  by (simp add: Let_def sent_BaiduV1_geocode sent_BaiduV2_geocode)

text \<open>
  C10: a falsy city, the empty string, is left out of the request. \<open>geocode\<close> of either
  version builds the parameters it builds without a city, behaves as the call without a
  city does, and the parameters have no \<open>city\<close> item.
\<close>

theorem geocode_falsy_city_omitted:
  "BaiduV1_geocode_params env self1 query (Some []) =
     BaiduV1_geocode_params env self1 query None \<and>
   BaiduV1_geocode env self1 query (Some []) e tmo w =
     BaiduV1_geocode env self1 query None e tmo w \<and>
   BaiduV2_geocode_params env self2 query (Some []) =
     BaiduV2_geocode_params env self2 query None \<and>
   BaiduV2_geocode env self2 query (Some []) e tmo w =
     BaiduV2_geocode env self2 query None e tmo w \<and>
   (\<forall>ps. BaiduV1_geocode_params env self1 query (Some []) = Inr ps \<longrightarrow>
      map_of ps ''city'' = None) \<and>
   (\<forall>ps. BaiduV2_geocode_params env self2 query (Some []) = Inr ps \<longrightarrow>
      map_of ps ''city'' = None)"
proof -
  have p1: "BaiduV1_geocode_params env self1 query (Some []) =
      BaiduV1_geocode_params env self1 query None"
    by (simp add: BaiduV1_geocode_params_def split: sum.splits)
  have p2: "BaiduV2_geocode_params env self2 query (Some []) =
      BaiduV2_geocode_params env self2 query None"
    by (simp add: BaiduV2_geocode_params_def split: sum.splits)
  have g1: "BaiduV1_geocode env self1 query (Some []) e tmo w =
      BaiduV1_geocode env self1 query None e tmo w"
    unfolding BaiduV1_geocode_def BaiduV1_geocode_url_def p1 by simp
  have g2: "BaiduV2_geocode env self2 query (Some []) e tmo w =
      BaiduV2_geocode env self2 query None e tmo w"
    unfolding BaiduV2_geocode_def BaiduV2_geocode_url_def p2 by simp
  have c1: "\<forall>ps. BaiduV1_geocode_params env self1 query (Some []) = Inr ps \<longrightarrow>
      map_of ps ''city'' = None"
    by (auto simp: BaiduV1_geocode_params_def split: sum.splits)
  have c2: "\<forall>ps. BaiduV2_geocode_params env self2 query (Some []) = Inr ps \<longrightarrow>
      map_of ps ''city'' = None"
    by (auto simp: BaiduV2_geocode_params_def split: sum.splits)
  from p1 p2 g1 g2 c1 c2 show ?thesis
    by blast
qed

text \<open>The property at the query \<open>Shanghai\<close> with the empty string as the city.\<close>

theorem geocode_falsy_city_omitted_witness:
  "BaiduV1_geocode_params example_env example_v1 ''Shanghai'' (Some []) =
     Inr [(''address'', ''Shanghai''), (''output'', ''json''), (''key'', ''K1'')] \<and>
   map_of [(''address'', ''Shanghai''), (''output'', ''json''), (''key'', ''K1'')] ''city'' =
     None \<and>
   BaiduV2_geocode_params example_env example_v2 ''Shanghai'' (Some []) =
     Inr [(''address'', ''Shanghai''), (''output'', ''json''), (''ak'', ''K2'')] \<and>
   map_of [(''address'', ''Shanghai''), (''output'', ''json''), (''ak'', ''K2'')] ''city'' =
     None"
proof -
  have n1: "BaiduV1_geocode_params example_env example_v1 ''Shanghai'' None =
      Inr [(''address'', ''Shanghai''), (''output'', ''json''), (''key'', ''K1'')]"
    by (simp add: BaiduV1_geocode_params_def example_env_def example_v1_def BaiduV1_init_def)
  have n2: "BaiduV2_geocode_params example_env example_v2 ''Shanghai'' None =
      Inr [(''address'', ''Shanghai''), (''output'', ''json''), (''ak'', ''K2'')]"
    by (simp add: BaiduV2_geocode_params_def example_env_def example_v2_def BaiduV2_init_def)
  note t = geocode_falsy_city_omitted
    [of example_env example_v1 "''Shanghai''" True None world0 example_v2]
  from t n1 have s1: "BaiduV1_geocode_params example_env example_v1 ''Shanghai'' (Some []) =
      Inr [(''address'', ''Shanghai''), (''output'', ''json''), (''key'', ''K1'')]"
    by simp
  from t n2 have s2: "BaiduV2_geocode_params example_env example_v2 ''Shanghai'' (Some []) =
      Inr [(''address'', ''Shanghai''), (''output'', ''json''), (''ak'', ''K2'')]"
    by simp
  from t s1 have m1:
    "map_of [(''address'', ''Shanghai''), (''output'', ''json''), (''key'', ''K1'')] ''city'' =
       None"
    by blast
  from t s2 have m2:
    "map_of [(''address'', ''Shanghai''), (''output'', ''json''), (''ak'', ''K2'')] ''city'' =
       None"
    by blast
  from s1 s2 m1 m2 show ?thesis
    by blast
qed

end
